theory Spec2Isabelle
  imports Main
begin

section \<open>The configuration module \<^verbatim>\<open>sram_config.py\<close>\<close>

text \<open>
  The repository holds one Python file, \<^verbatim>\<open>my_sram_project/sram_config.py\<close>: fifteen
  assignment statements at module level, fourteen of them with a literal on the right
  and one with an f-string that reads three of the names assigned before it. An
  external generator loads the file by executing its body in a namespace and then reads
  the names it bound.

  The embedding follows that shape: the values the literals denote, the two kinds of
  right-hand side, the assignment statement, and the execution of a statement list in
  a namespace, with the exceptions the interpreter can raise (an unbound name, an
  integer too long to convert to text) as results of a sum type.
\<close>

subsection \<open>Values\<close>

text \<open>
  \<open>VFloat m e\<close> is the float written as the decimal literal \<open>m \<times> 10\<^sup>e\<close>; the file
  never computes with a float, so the literal identifies the value (\<open>1.8\<close> is
  \<open>VFloat 18 (-1)\<close>).
\<close>

datatype pyval =
    VInt int
  | VFloat int int
  | VStr string
  | VBool bool
  | VList "pyval list"

datatype error =
    NameError string
  | ValueError
  | FormatNotModelled

type_synonym namespace = "string \<rightharpoonup> pyval"

subsection \<open>Decimal text of an integer\<close>

text \<open>
  A replacement field \<^verbatim>\<open>{x}\<close> with no format specification yields \<^verbatim>\<open>format(x, '')\<close>,
  which for an \<^verbatim>\<open>int\<close> is its decimal text: a minus sign for a negative number, then
  the digits with no leading zero.
\<close>

definition digit_char :: "nat \<Rightarrow> char" where
  "digit_char d = ''0123456789'' ! d"

function digits :: "nat \<Rightarrow> string" where
  "digits n = (if n < 10 then [digit_char n] else digits (n div 10) @ [digit_char (n mod 10)])"
  by pat_completeness auto
termination
  by (relation "measure id") auto

declare digits.simps [simp del]

definition str_int :: "int \<Rightarrow> string" where
  "str_int i = (if i < 0 then CHR ''-'' # digits (nat (- i)) else digits (nat i))"

text \<open>
  The interpreter refuses to convert an integer to decimal text when the text would have
  more digits, the sign not counted, than its limit; the conversion then raises
  \<^verbatim>\<open>ValueError\<close>. The limit is a setting of the interpreter and not of this file:
  \<open>max_str_digits\<close> is its default in CPython 3.11,
  \<^verbatim>\<open>sys.int_info.default_max_str_digits\<close>. An interpreter without the limit converts
  every integer, so the model raises wherever some interpreter does.
\<close>

definition max_str_digits :: nat where
  "max_str_digits = 4300"

text \<open>
  The text of a string is the string and that of a boolean is its name. The text of a
  float and of a list is not modelled (it needs the shortest round-trip text of a double
  and \<^verbatim>\<open>repr\<close> of the elements): the model answers \<open>FormatNotModelled\<close> there, so
  that a result \<open>Inr\<close> says that no such value was formatted.
\<close>

fun format_value :: "pyval \<Rightarrow> error + string" where
  "format_value (VInt i) =
     (if max_str_digits < length (digits (nat \<bar>i\<bar>)) then Inl ValueError else Inr (str_int i))"
| "format_value (VStr s) = Inr s"
| "format_value (VBool b) = Inr (if b then ''True'' else ''False'')"
| "format_value (VFloat m e) = Inl FormatNotModelled"
| "format_value (VList vs) = Inl FormatNotModelled"

subsection \<open>Expressions and statements\<close>

datatype fpart = Text string | Field string

datatype expr = Lit pyval | FString "fpart list"

datatype stmt = Assign string expr

text \<open>
  An f-string is evaluated left to right; a replacement field naming an unbound
  variable raises \<^verbatim>\<open>NameError\<close>, one whose value cannot be converted raises what the
  conversion raises, and either ends the evaluation.
\<close>

fun eval_fstring :: "fpart list \<Rightarrow> namespace \<Rightarrow> error + string" where
  "eval_fstring [] ns = Inr []"
| "eval_fstring (Text s # ps) ns =
     (case eval_fstring ps ns of Inl e \<Rightarrow> Inl e | Inr r \<Rightarrow> Inr (s @ r))"
| "eval_fstring (Field x # ps) ns =
     (case ns x of
        None \<Rightarrow> Inl (NameError x)
      | Some v \<Rightarrow>
          (case format_value v of
             Inl e \<Rightarrow> Inl e
           | Inr s \<Rightarrow> (case eval_fstring ps ns of Inl e \<Rightarrow> Inl e | Inr r \<Rightarrow> Inr (s @ r))))"

fun eval_expr :: "expr \<Rightarrow> namespace \<Rightarrow> error + pyval" where
  "eval_expr (Lit v) ns = Inr v"
| "eval_expr (FString ps) ns =
     (case eval_fstring ps ns of Inl e \<Rightarrow> Inl e | Inr s \<Rightarrow> Inr (VStr s))"

fun exec_stmt :: "stmt \<Rightarrow> namespace \<Rightarrow> error + namespace" where
  "exec_stmt (Assign x e) ns =
     (case eval_expr e ns of Inl err \<Rightarrow> Inl err | Inr v \<Rightarrow> Inr (ns(x \<mapsto> v)))"

text \<open>The module body runs top to bottom and stops at the first exception.\<close>

fun exec_module :: "stmt list \<Rightarrow> namespace \<Rightarrow> error + namespace" where
  "exec_module [] ns = Inr ns"
| "exec_module (s # ss) ns =
     (case exec_stmt s ns of Inl err \<Rightarrow> Inl err | Inr ns' \<Rightarrow> exec_module ss ns')"

subsection \<open>The file\<close>

text \<open>
  The statements of the file in source order. Its header asks the user to edit the
  values under the heading \<^verbatim>\<open>CONFIGURE YOUR SRAM\<close>; those four literals are the
  parameters of \<open>sram_config_with\<close>, and the file as it stands is the instance
  \<open>sram_config\<close>.
\<close>

definition output_name_expr :: expr where
  "output_name_expr =
     FString [Text ''sram_'', Field ''word_size'', Text ''x'', Field ''num_words'',
              Text ''_'', Field ''num_banks'', Text ''bank'']"

definition sram_config_with :: "int \<Rightarrow> int \<Rightarrow> int \<Rightarrow> int \<Rightarrow> stmt list" where
  "sram_config_with ws wpr nw nb =
     [Assign ''word_size'' (Lit (VInt ws)),
      Assign ''words_per_row'' (Lit (VInt wpr)),
      Assign ''num_words'' (Lit (VInt nw)),
      Assign ''num_banks'' (Lit (VInt nb)),
      Assign ''num_rw_ports'' (Lit (VInt 1)),
      Assign ''num_r_ports'' (Lit (VInt 0)),
      Assign ''num_w_ports'' (Lit (VInt 0)),
      Assign ''tech_name'' (Lit (VStr ''freepdk45'')),
      Assign ''process_corners'' (Lit (VList [VStr ''TT''])),
      Assign ''supply_voltages'' (Lit (VList [VFloat 18 (- 1)])),
      Assign ''temperatures'' (Lit (VList [VInt 25])),
      Assign ''output_path'' (Lit (VStr ''output'')),
      Assign ''output_name'' output_name_expr,
      Assign ''analytical_delay'' (Lit (VBool True)),
      Assign ''nominal_corner_only'' (Lit (VBool True))]"

definition sram_config :: "stmt list" where
  "sram_config = sram_config_with 32 4 1024 1"

text \<open>Loading the file: its body executed in the namespace the loader provides.\<close>

definition load :: "namespace \<Rightarrow> error + namespace" where
  "load ns = exec_module sram_config ns"

text \<open>What a name is bound to once a body has run in \<open>ns\<close>.\<close>

definition field_after :: "stmt list \<Rightarrow> namespace \<Rightarrow> string \<Rightarrow> error + pyval option" where
  "field_after body ns x = (case exec_module body ns of Inl e \<Rightarrow> Inl e | Inr ns' \<Rightarrow> Inr (ns' x))"

subsection \<open>What a statement writes and reads\<close>

fun target :: "stmt \<Rightarrow> string" where
  "target (Assign x e) = x"

fun rhs :: "stmt \<Rightarrow> expr" where
  "rhs (Assign x e) = e"

definition targets :: "stmt list \<Rightarrow> string list" where
  "targets body = map target body"

fun field_refs :: "fpart list \<Rightarrow> string list" where
  "field_refs [] = []"
| "field_refs (Text s # ps) = field_refs ps"
| "field_refs (Field x # ps) = x # field_refs ps"

fun reads :: "expr \<Rightarrow> string list" where
  "reads (Lit v) = []"
| "reads (FString ps) = field_refs ps"

text \<open>The statements whose value depends on other names, each with the names it reads.\<close>

definition derived_fields :: "stmt list \<Rightarrow> (string \<times> string list) list" where
  "derived_fields body =
     map (\<lambda>s. (target s, reads (rhs s))) (filter (\<lambda>s. reads (rhs s) \<noteq> []) body)"

subsection \<open>Observations of a loaded configuration\<close>

text \<open>The number of names bound after a load in \<open>ns\<close>.\<close>

definition field_count :: "namespace \<Rightarrow> error + nat" where
  "field_count ns = (case load ns of Inl e \<Rightarrow> Inl e | Inr ns' \<Rightarrow> Inr (card (dom ns')))"

text \<open>A second load in the same process runs the body again in the namespace of the first.\<close>

definition load_twice :: "namespace \<Rightarrow> error + namespace" where
  "load_twice ns = (case load ns of Inl e \<Rightarrow> Inl e | Inr ns' \<Rightarrow> load ns')"

text \<open>The fields of the file, in source order, with what each is bound to.\<close>

definition snapshot :: "namespace \<Rightarrow> (string \<times> pyval option) list" where
  "snapshot ns = map (\<lambda>x. (x, ns x)) (targets sram_config)"

definition int_field :: "namespace \<Rightarrow> string \<Rightarrow> int option" where
  "int_field ns x = (case ns x of Some (VInt i) \<Rightarrow> Some i | _ \<Rightarrow> None)"

text \<open>The constraints of the data model, as predicates on what a name is bound to.\<close>

definition positive_int :: "pyval option \<Rightarrow> bool" where
  "positive_int b = (case b of Some (VInt i) \<Rightarrow> 0 < i | _ \<Rightarrow> False)"

definition non_negative_int :: "pyval option \<Rightarrow> bool" where
  "non_negative_int b = (case b of Some (VInt i) \<Rightarrow> 0 \<le> i | _ \<Rightarrow> False)"

definition one_or_two :: "pyval option \<Rightarrow> bool" where
  "one_or_two b = (case b of Some (VInt i) \<Rightarrow> i = 1 \<or> i = 2 | _ \<Rightarrow> False)"

definition total_ports :: "namespace \<Rightarrow> int option" where
  "total_ports ns =
     (case (int_field ns ''num_rw_ports'', int_field ns ''num_r_ports'', int_field ns ''num_w_ports'') of
        (Some rw, Some r, Some w) \<Rightarrow> Some (rw + r + w)
      | _ \<Rightarrow> None)"

text \<open>
  A triple \<open>(word_size, num_words, num_banks)\<close> is valid, in the words of the data
  model, when the two sizes are positive and there are one or two banks.
\<close>

definition valid_triple :: "int \<Rightarrow> int \<Rightarrow> int \<Rightarrow> bool" where
  "valid_triple ws nw nb = (0 < ws \<and> 0 < nw \<and> (nb = 1 \<or> nb = 2))"

text \<open>An integer whose decimal text stays within the limit of the interpreter.\<close>

definition fits_max_str_digits :: "int \<Rightarrow> bool" where
  "fits_max_str_digits i = (\<bar>i\<bar> < 10 ^ max_str_digits)"

text \<open>
  What it means for a string to be the decimal text of a number, said without the
  conversion: read back digit by digit it gives the number, it holds digits only, and
  it has no leading zero; a negative number has a minus sign in front.
\<close>

definition is_digit :: "char \<Rightarrow> bool" where
  "is_digit c = (48 \<le> (of_char c :: nat) \<and> (of_char c :: nat) \<le> 57)"

definition digit_val :: "char \<Rightarrow> nat" where
  "digit_val c = of_char c - 48"

definition decimal_value :: "string \<Rightarrow> nat" where
  "decimal_value s = foldl (\<lambda>acc c. 10 * acc + digit_val c) 0 s"

definition is_nat_text :: "string \<Rightarrow> nat \<Rightarrow> bool" where
  "is_nat_text s n =
     (s \<noteq> [] \<and> list_all is_digit s \<and> (s = ''0'' \<or> take 1 s \<noteq> ''0'') \<and> decimal_value s = n)"

definition is_decimal_text_of :: "string \<Rightarrow> int \<Rightarrow> bool" where
  "is_decimal_text_of s i =
     (if i < 0 then take 1 s = ''-'' \<and> is_nat_text (drop 1 s) (nat (- i))
      else is_nat_text s (nat i))"

text \<open>A path is absolute when it starts at the root (\<^verbatim>\<open>os.path.isabs\<close> on POSIX).\<close>

definition isabs :: "string \<Rightarrow> bool" where
  "isabs p = (case p of [] \<Rightarrow> False | c # cs \<Rightarrow> c = CHR ''/'')"

definition abs_path_field :: "pyval option \<Rightarrow> bool" where
  "abs_path_field b = (case b of Some (VStr p) \<Rightarrow> isabs p | _ \<Rightarrow> False)"

section \<open>The decimal text\<close>

text \<open>The text is never empty and holds decimal digits only.\<close>

lemma digits_are_decimal: "digits n \<noteq> [] \<and> set (digits n) \<subseteq> set ''0123456789''"
proof (induction n rule: digits.induct)
  case (1 n)
  have m: "digit_char (n mod 10) \<in> set ''0123456789''"
    unfolding digit_char_def by (rule nth_mem) simp
  show ?case
  proof (cases "n < 10")
    case True
    then have "digit_char n \<in> set ''0123456789''"
      unfolding digit_char_def by (intro nth_mem) simp
    with True show ?thesis
      by (subst (1 2) digits.simps) simp
  next
    case False
    with 1 m show ?thesis
      by (subst (1 2) digits.simps) simp
  qed
qed

lemma str_int_examples:
  "str_int 0 = ''0''" "str_int 7 = ''7''" "str_int 2048 = ''2048''" "str_int (- 15) = ''-15''"
  by (simp_all add: str_int_def digits.simps digit_char_def)

text \<open>
  The conversion gives the decimal text in the sense of \<open>is_decimal_text_of\<close>, for
  every integer.
\<close>

lemma digit_char_props:
  assumes "d < 10"
  shows "is_digit (digit_char d)" and "digit_val (digit_char d) = d"
proof -
  from assms have "d = 0 \<or> d = 1 \<or> d = 2 \<or> d = 3 \<or> d = 4 \<or> d = 5 \<or> d = 6 \<or> d = 7 \<or> d = 8 \<or> d = 9"
    by arith
  then show "is_digit (digit_char d)" and "digit_val (digit_char d) = d"
    by (auto simp: digit_char_def is_digit_def digit_val_def)
qed

lemma decimal_value_single: "decimal_value [c] = digit_val c"
  by (simp add: decimal_value_def)

lemma decimal_value_snoc: "decimal_value (s @ [c]) = 10 * decimal_value s + digit_val c"
  by (simp add: decimal_value_def)

lemma digits_nonempty: "digits n \<noteq> []"
  by (subst digits.simps) simp

lemma digits_value: "decimal_value (digits n) = n"
proof (induction n rule: digits.induct)
  case (1 n)
  show ?case
  proof (cases "n < 10")
    case True
    then show ?thesis
      by (subst digits.simps) (simp add: decimal_value_single digit_char_props)
  next
    case False
    with 1 have "decimal_value (digits (n div 10)) = n div 10"
      by simp
    moreover have "digit_val (digit_char (n mod 10)) = n mod 10"
      by (simp add: digit_char_props)
    ultimately show ?thesis
      using False by (subst digits.simps) (simp add: decimal_value_snoc)
  qed
qed

lemma digits_all_digits: "list_all is_digit (digits n)"
proof (induction n rule: digits.induct)
  case (1 n)
  show ?case
  proof (cases "n < 10")
    case True
    then show ?thesis
      by (subst digits.simps) (simp add: digit_char_props)
  next
    case False
    with 1 show ?thesis
      by (subst digits.simps) (simp add: digit_char_props)
  qed
qed

lemma digits_no_leading_zero: "0 < n \<Longrightarrow> take 1 (digits n) \<noteq> ''0''"
proof (induction n rule: digits.induct)
  case (1 n)
  show ?case
  proof (cases "n < 10")
    case True
    have "digit_val (digit_char n) = n"
      using True by (rule digit_char_props)
    moreover have "digit_val CHR ''0'' = 0"
      by (simp add: digit_val_def)
    ultimately have "digit_char n \<noteq> CHR ''0''"
      using "1.prems" by auto
    with True show ?thesis
      by (subst digits.simps) simp
  next
    case False
    then have "0 < n div 10"
      by simp
    with "1.IH" False have "take 1 (digits (n div 10)) \<noteq> ''0''"
      by simp
    moreover have "take 1 (digits (n div 10) @ [digit_char (n mod 10)]) = take 1 (digits (n div 10))"
      using digits_nonempty [of "n div 10"] by (cases "digits (n div 10)") simp_all
    ultimately show ?thesis
      using False by (subst digits.simps) simp
  qed
qed

lemma digits_zero: "digits 0 = ''0''"
  by (simp add: digits.simps digit_char_def)

lemma digits_is_nat_text: "is_nat_text (digits n) n"
proof (cases "n = 0")
  case True
  then show ?thesis
    by (simp add: is_nat_text_def digits_zero is_digit_def decimal_value_def digit_val_def)
next
  case False
  then have "take 1 (digits n) \<noteq> ''0''"
    using digits_no_leading_zero [of n] by simp
  then show ?thesis
    by (simp add: is_nat_text_def digits_nonempty digits_all_digits digits_value)
qed

lemma str_int_is_decimal_text: "is_decimal_text_of (str_int i) i"
  by (simp add: is_decimal_text_of_def str_int_def digits_is_nat_text)

text \<open>The text of \<open>n\<close> has at most \<open>k\<close> digits exactly when \<open>n\<close> is below \<open>10\<^sup>k\<close>.\<close>

lemma length_digits_le: "0 < k \<Longrightarrow> (length (digits n) \<le> k) = (n < 10 ^ k)"
proof (induction n arbitrary: k rule: digits.induct)
  case (1 n)
  show ?case
  proof (cases "n < 10")
    case True
    have "(10::nat) ^ 1 \<le> 10 ^ k"
      using "1.prems" by (intro power_increasing) simp_all
    with True have "n < 10 ^ k"
      by simp
    moreover have "length (digits n) = 1"
      using True by (subst digits.simps) simp
    ultimately show ?thesis
      using "1.prems" by simp
  next
    case False
    have len: "length (digits n) = Suc (length (digits (n div 10)))"
      using False by (subst digits.simps) simp
    show ?thesis
    proof (cases "k = 1")
      case True
      with False len digits_nonempty [of "n div 10"] show ?thesis
        by (cases "digits (n div 10)") simp_all
    next
      case k: False
      with "1.prems" obtain k' where k': "k = Suc k'" "0 < k'"
        by (cases k) auto
      from "1.IH" [OF False k'(2)]
      have "(length (digits (n div 10)) \<le> k') = (n div 10 < 10 ^ k')" .
      also have "\<dots> = (n < 10 ^ k)"
        unfolding k'(1) by (simp add: div_less_iff_less_mult mult.commute)
      finally show ?thesis
        using len k'(1) by simp
    qed
  qed
qed

lemma max_str_digits_pos: "0 < max_str_digits"
  by (simp add: max_str_digits_def)

lemma fits_iff_length:
  "fits_max_str_digits i = (length (digits (nat \<bar>i\<bar>)) \<le> max_str_digits)"
proof -
  have "(\<bar>i\<bar> < 10 ^ max_str_digits) = (nat \<bar>i\<bar> < 10 ^ max_str_digits)"
    by (simp add: nat_less_iff)
  then show ?thesis
    unfolding fits_max_str_digits_def length_digits_le [OF max_str_digits_pos] .
qed

lemma format_value_int:
  "format_value (VInt i) = (if fits_max_str_digits i then Inr (str_int i) else Inl ValueError)"
  by (auto simp: fits_iff_length)

lemma fits_below:
  "\<bar>i\<bar> < 10 ^ k \<Longrightarrow> k \<le> max_str_digits \<Longrightarrow> fits_max_str_digits i"
proof -
  assume a: "\<bar>i\<bar> < 10 ^ k" and k: "k \<le> max_str_digits"
  from k have "(10::int) ^ k \<le> 10 ^ max_str_digits"
    by (intro power_increasing) simp_all
  with a show ?thesis
    unfolding fits_max_str_digits_def by (rule less_le_trans)
qed

lemma not_fits_power: "\<not> fits_max_str_digits (10 ^ max_str_digits)"
  by (simp add: fits_max_str_digits_def)

section \<open>Executing statement lists\<close>

lemma exec_module_append:
  "exec_module (a @ b) ns =
     (case exec_module a ns of Inl e \<Rightarrow> Inl e | Inr ns' \<Rightarrow> exec_module b ns')"
  by (induction a arbitrary: ns) (auto split: sum.splits)

lemma exec_stmt_frame:
  "exec_stmt s ns = Inr ns' \<Longrightarrow> x \<noteq> target s \<Longrightarrow> ns' x = ns x"
  by (cases s) (auto split: sum.splits)

lemma exec_module_frame:
  "exec_module b ns = Inr ns' \<Longrightarrow> x \<notin> set (targets b) \<Longrightarrow> ns' x = ns x"
proof (induction b arbitrary: ns)
  case Nil
  then show ?case by simp
next
  case (Cons s b)
  from Cons.prems(1) obtain ns1 where s: "exec_stmt s ns = Inr ns1"
    and b: "exec_module b ns1 = Inr ns'"
    by (auto split: sum.splits)
  from Cons.prems(2) have "x \<noteq> target s" and "x \<notin> set (targets b)"
    by (simp_all add: targets_def)
  with Cons.IH [OF b] exec_stmt_frame [OF s] show ?case by simp
qed

lemma exec_module_dom:
  "exec_module b ns = Inr ns' \<Longrightarrow> dom ns' = dom ns \<union> set (targets b)"
proof (induction b arbitrary: ns)
  case Nil
  then show ?case by (simp add: targets_def)
next
  case (Cons s b)
  from Cons.prems obtain ns1 where s: "exec_stmt s ns = Inr ns1"
    and b: "exec_module b ns1 = Inr ns'"
    by (auto split: sum.splits)
  from s have "dom ns1 = insert (target s) (dom ns)"
    by (cases s) (auto split: sum.splits)
  with Cons.IH [OF b] show ?case by (auto simp: targets_def)
qed

lemma exec_module_prefix:
  assumes "exec_module body ns = Inr nsf"
  shows "\<exists>nsk. exec_module (take k body) ns = Inr nsk"
proof (cases "exec_module (take k body) ns")
  case (Inl e)
  have "exec_module (take k body @ drop k body) ns = Inl e"
    unfolding exec_module_append Inl by simp
  with assms show ?thesis by simp
next
  case (Inr nsk)
  then show ?thesis by blast
qed

text \<open>
  When no name is assigned twice, a name assigned by the first \<open>i\<close> statements is left
  alone by the statements up to any later point \<open>j\<close>.
\<close>

lemma exec_module_keeps_assigned:
  assumes d: "distinct (targets body)"
    and le: "i \<le> j"
    and x: "x \<in> set (targets (take i body))"
    and i: "exec_module (take i body) ns = Inr nsi"
    and j: "exec_module (take j body) ns = Inr nsj"
  shows "nsj x = nsi x"
proof -
  define a where "a = take i body"
  define b where "b = drop i (take j body)"
  have ab: "a @ b = take j body"
  proof -
    have "take i (take j body) = a"
      using le by (simp add: a_def min_def)
    then show ?thesis
      unfolding b_def using append_take_drop_id [of i "take j body"] by simp
  qed
  have ia: "exec_module a ns = Inr nsi"
    unfolding a_def by (rule i)
  have "exec_module (a @ b) ns = Inr nsj"
    unfolding ab by (rule j)
  then have r: "exec_module b nsi = Inr nsj"
    by (simp add: exec_module_append ia)
  have "distinct (targets (take j body))"
    using d by (simp add: targets_def take_map [symmetric])
  then have "distinct (targets a @ targets b)"
    unfolding ab [symmetric] by (simp add: targets_def)
  moreover have "x \<in> set (targets a)"
    unfolding a_def by (rule x)
  ultimately have "x \<notin> set (targets b)"
    by auto
  with r show ?thesis
    by (rule exec_module_frame)
qed

text \<open>The namespace after a load, written out.\<close>

lemma load_result:
  "load ns = Inr (ns(''word_size'' \<mapsto> VInt 32, ''words_per_row'' \<mapsto> VInt 4,
     ''num_words'' \<mapsto> VInt 1024, ''num_banks'' \<mapsto> VInt 1, ''num_rw_ports'' \<mapsto> VInt 1,
     ''num_r_ports'' \<mapsto> VInt 0, ''num_w_ports'' \<mapsto> VInt 0, ''tech_name'' \<mapsto> VStr ''freepdk45'',
     ''process_corners'' \<mapsto> VList [VStr ''TT''], ''supply_voltages'' \<mapsto> VList [VFloat 18 (- 1)],
     ''temperatures'' \<mapsto> VList [VInt 25], ''output_path'' \<mapsto> VStr ''output'',
     ''output_name'' \<mapsto> VStr ''sram_32x1024_1bank'', ''analytical_delay'' \<mapsto> VBool True,
     ''nominal_corner_only'' \<mapsto> VBool True))"
  by (simp add: load_def sram_config_def sram_config_with_def output_name_expr_def
      max_str_digits_def str_int_def digits.simps digit_char_def)

text \<open>
  The same with other integers configured: the body runs to the end when the three
  integers the f-string reads fit the limit, and raises in the f-string otherwise.
\<close>

lemma exec_sram_config_with:
  assumes "fits_max_str_digits ws" and "fits_max_str_digits nw" and "fits_max_str_digits nb"
  shows "exec_module (sram_config_with ws wpr nw nb) ns =
     Inr (ns(''word_size'' \<mapsto> VInt ws, ''words_per_row'' \<mapsto> VInt wpr,
       ''num_words'' \<mapsto> VInt nw, ''num_banks'' \<mapsto> VInt nb, ''num_rw_ports'' \<mapsto> VInt 1,
       ''num_r_ports'' \<mapsto> VInt 0, ''num_w_ports'' \<mapsto> VInt 0, ''tech_name'' \<mapsto> VStr ''freepdk45'',
       ''process_corners'' \<mapsto> VList [VStr ''TT''], ''supply_voltages'' \<mapsto> VList [VFloat 18 (- 1)],
       ''temperatures'' \<mapsto> VList [VInt 25], ''output_path'' \<mapsto> VStr ''output'',
       ''output_name'' \<mapsto>
         VStr (''sram_'' @ str_int ws @ ''x'' @ str_int nw @ ''_'' @ str_int nb @ ''bank''),
       ''analytical_delay'' \<mapsto> VBool True, ''nominal_corner_only'' \<mapsto> VBool True))"
  using assms
  by (simp add: sram_config_with_def output_name_expr_def format_value_int
      del: format_value.simps(1))

lemma exec_sram_config_with_long_word_size:
  assumes "\<not> fits_max_str_digits ws"
  shows "exec_module (sram_config_with ws wpr nw nb) ns = Inl ValueError"
  using assms
  by (simp add: sram_config_with_def output_name_expr_def format_value_int
      del: format_value.simps(1))

lemma targets_sram_config:
  "targets sram_config =
     [''word_size'', ''words_per_row'', ''num_words'', ''num_banks'', ''num_rw_ports'',
      ''num_r_ports'', ''num_w_ports'', ''tech_name'', ''process_corners'', ''supply_voltages'',
      ''temperatures'', ''output_path'', ''output_name'', ''analytical_delay'',
      ''nominal_corner_only'']"
  by (simp add: targets_def sram_config_def sram_config_with_def)

lemma distinct_targets_sram_config: "distinct (targets sram_config)"
  by (simp add: targets_sram_config)

section \<open>The derived output name\<close>

text \<open>
  C1, as stated: for every valid triple \<open>(word_size, num_words, num_banks)\<close> the name
  \<open>output_name\<close> equals the concatenation. It does not for every one: with
  \<open>word_size = 10\<^sup>4\<^sup>3\<^sup>0\<^sup>0\<close>, a positive integer of 4301 digits, 1024 words and one bank
  the triple is valid, the f-string raises \<^verbatim>\<open>ValueError\<close> and \<open>output_name\<close> is never
  bound.
\<close>

theorem output_name_raises_beyond_digit_limit:
  "valid_triple (10 ^ max_str_digits) 1024 1 \<and>
   field_after (sram_config_with (10 ^ max_str_digits) 4 1024 1) Map.empty ''output_name'' =
     Inl ValueError"
proof -
  have "valid_triple (10 ^ max_str_digits) 1024 1"
    by (simp add: valid_triple_def)
  moreover have "exec_module (sram_config_with (10 ^ max_str_digits) 4 1024 1) Map.empty =
      Inl ValueError"
    using not_fits_power by (rule exec_sram_config_with_long_word_size)
  ultimately show ?thesis
    by (simp add: field_after_def)
qed

text \<open>
  C1, amended. For every valid triple \<open>(word_size, num_words, num_banks)\<close> whose
  \<open>word_size\<close> and \<open>num_words\<close> have at most 4300 decimal digits, whatever the fourth
  value and the namespace the file is loaded in, \<open>output_name\<close> is bound after the load
  to the string \<open>sram_\<close>, the decimal text of \<open>word_size\<close>, \<open>x\<close>, the decimal text of
  \<open>num_words\<close>, \<open>_\<close>, the decimal text of \<open>num_banks\<close>, \<open>bank\<close>. Each of the three
  texts is the decimal text of its number: digits only, no leading zero, and the number
  when read back.
\<close>

theorem output_name_concatenation:
  assumes "valid_triple ws nw nb"
    and "fits_max_str_digits ws" and "fits_max_str_digits nw"
  shows "field_after (sram_config_with ws wpr nw nb) ns ''output_name'' =
       Inr (Some (VStr (''sram_'' @ str_int ws @ ''x'' @ str_int nw @ ''_'' @ str_int nb @ ''bank''))) \<and>
     is_decimal_text_of (str_int ws) ws \<and>
     is_decimal_text_of (str_int nw) nw \<and>
     is_decimal_text_of (str_int nb) nb"
proof -
  from assms(1) have "\<bar>nb\<bar> < 10 ^ 1"
    by (auto simp: valid_triple_def)
  then have "fits_max_str_digits nb"
    by (rule fits_below) (simp add: max_str_digits_def)
  with assms(2,3) have "field_after (sram_config_with ws wpr nw nb) ns ''output_name'' =
      Inr (Some (VStr (''sram_'' @ str_int ws @ ''x'' @ str_int nw @ ''_'' @ str_int nb @ ''bank'')))"
    by (simp add: field_after_def exec_sram_config_with)
  then show ?thesis
    by (simp add: str_int_is_decimal_text)
qed

text \<open>The file as it stands: 32 bits, 1024 words, one bank.\<close>

theorem output_name_shipped:
  "valid_triple 32 1024 1 \<and> fits_max_str_digits 32 \<and> fits_max_str_digits 1024 \<and>
   field_after sram_config Map.empty ''output_name'' = Inr (Some (VStr ''sram_32x1024_1bank'')) \<and>
   is_decimal_text_of ''32'' 32 \<and> is_decimal_text_of ''1024'' 1024 \<and> is_decimal_text_of ''1'' 1"
proof -
  have v: "valid_triple 32 1024 1"
    by (simp add: valid_triple_def)
  have ws: "fits_max_str_digits 32"
    by (rule fits_below [of _ 2]) (simp_all add: max_str_digits_def)
  have nw: "fits_max_str_digits 1024"
    by (rule fits_below [of _ 4]) (simp_all add: max_str_digits_def)
  have t: "str_int 32 = ''32''" "str_int 1024 = ''1024''" "str_int 1 = ''1''"
    by (simp_all add: str_int_def digits.simps digit_char_def)
  from output_name_concatenation [OF v ws nw, of 4 Map.empty]
  have "field_after sram_config Map.empty ''output_name'' = Inr (Some (VStr ''sram_32x1024_1bank'')) \<and>
      is_decimal_text_of ''32'' 32 \<and> is_decimal_text_of ''1024'' 1024 \<and> is_decimal_text_of ''1'' 1"
    unfolding t sram_config_def by simp
  with v ws nw show ?thesis
    by blast
qed

section \<open>The values after a load\<close>

text \<open>
  C2. After a load in any namespace, every name the file assigns is bound, and the
  fields with a listed default are bound to it: \<open>word_size = 32\<close>,
  \<open>words_per_row = 4\<close>, \<open>num_words = 1024\<close>, \<open>num_banks = 1\<close>, \<open>num_rw_ports = 1\<close>,
  \<open>tech_name = "freepdk45"\<close>, \<open>process_corners = ["TT"]\<close>, \<open>supply_voltages = [1.8]\<close>,
  \<open>temperatures = [25]\<close>, \<open>analytical_delay = True\<close>, \<open>nominal_corner_only = True\<close>.
\<close>

theorem declared_defaults_after_load:
  "\<exists>ns'. load ns = Inr ns' \<and> set (targets sram_config) \<subseteq> dom ns' \<and>
     ns' ''word_size'' = Some (VInt 32) \<and>
     ns' ''words_per_row'' = Some (VInt 4) \<and>
     ns' ''num_words'' = Some (VInt 1024) \<and>
     ns' ''num_banks'' = Some (VInt 1) \<and>
     ns' ''num_rw_ports'' = Some (VInt 1) \<and>
     ns' ''tech_name'' = Some (VStr ''freepdk45'') \<and>
     ns' ''process_corners'' = Some (VList [VStr ''TT'']) \<and>
     ns' ''supply_voltages'' = Some (VList [VFloat 18 (- 1)]) \<and>
     ns' ''temperatures'' = Some (VList [VInt 25]) \<and>
     ns' ''analytical_delay'' = Some (VBool True) \<and>
     ns' ''nominal_corner_only'' = Some (VBool True)"
  by (simp add: load_result targets_sram_config)

text \<open>
  C3, as stated: the file exposes exactly 16 named fields. It does not: loaded in an
  empty namespace it binds 15 names.
\<close>

theorem field_count_is_not_16: "field_count Map.empty \<noteq> Inr 16"
  by (simp add: field_count_def load_result)

text \<open>
  C3, amended. The file exposes exactly 15 named fields: it has 15 assignments, their
  targets are pairwise different, a load in an empty namespace binds 15 names, and a
  load in any namespace binds the targets and nothing else.
\<close>

theorem field_count_is_15:
  "field_count Map.empty = Inr 15 \<and>
   length (targets sram_config) = 15 \<and> distinct (targets sram_config) \<and>
   (\<exists>ns'. load ns = Inr ns' \<and> dom ns' = dom ns \<union> set (targets sram_config))"
proof -
  have "field_count Map.empty = Inr 15"
    by (simp add: field_count_def load_result)
  moreover have "length (targets sram_config) = 15"
    by (simp add: targets_sram_config)
  moreover obtain ns' where l: "load ns = Inr ns'"
    using load_result by blast
  then have "dom ns' = dom ns \<union> set (targets sram_config)"
    unfolding load_def by (rule exec_module_dom)
  ultimately show ?thesis
    using distinct_targets_sram_config l by blast
qed

text \<open>
  C4. The values the file declares meet the constraints of the data model:
  \<open>word_size\<close>, \<open>words_per_row\<close> and \<open>num_words\<close> are positive integers, \<open>num_banks\<close>
  is the integer 1 or 2, and the three port counts are non-negative integers.
\<close>

theorem declared_values_meet_constraints:
  "\<exists>ns'. load ns = Inr ns' \<and>
     positive_int (ns' ''word_size'') \<and>
     positive_int (ns' ''words_per_row'') \<and>
     positive_int (ns' ''num_words'') \<and>
     one_or_two (ns' ''num_banks'') \<and>
     non_negative_int (ns' ''num_rw_ports'') \<and>
     non_negative_int (ns' ''num_r_ports'') \<and>
     non_negative_int (ns' ''num_w_ports'')"
  by (simp add: load_result positive_int_def one_or_two_def non_negative_int_def)

text \<open>
  C8. In the declared configuration \<open>num_r_ports\<close> and \<open>num_w_ports\<close> are both 0 and
  the total \<open>num_rw_ports + num_r_ports + num_w_ports\<close> is exactly 1.
\<close>

theorem declared_total_ports:
  "\<exists>ns'. load ns = Inr ns' \<and>
     ns' ''num_r_ports'' = Some (VInt 0) \<and>
     ns' ''num_w_ports'' = Some (VInt 0) \<and>
     total_ports ns' = Some 1"
  by (simp add: load_result total_ports_def int_field_def)

text \<open>
  C9. In the declared configuration \<open>words_per_row\<close> divides \<open>num_words\<close>: the
  remainder of 1024 by 4 is 0 and the quotient is 256 rows.
\<close>

theorem declared_words_per_row_divides:
  "\<exists>ns' wpr nw. load ns = Inr ns' \<and>
     int_field ns' ''words_per_row'' = Some wpr \<and>
     int_field ns' ''num_words'' = Some nw \<and>
     wpr = 4 \<and> nw = 1024 \<and> nw mod wpr = 0 \<and> nw div wpr = 256 \<and> wpr dvd nw"
  by (simp add: load_result int_field_def)

text \<open>
  C10. After a load \<open>output_path\<close> is the string \<open>output\<close>; the one statement that
  assigns it has that literal on its right and reads no name; and no field the file
  assigns is bound to an absolute path.
\<close>

theorem output_path_is_literal_relative:
  "\<exists>ns'. load ns = Inr ns' \<and>
     ns' ''output_path'' = Some (VStr ''output'') \<and>
     filter (\<lambda>s. target s = ''output_path'') sram_config =
       [Assign ''output_path'' (Lit (VStr ''output''))] \<and>
     reads (Lit (VStr ''output'')) = [] \<and>
     filter (\<lambda>x. abs_path_field (ns' x)) (targets sram_config) = []"
proof -
  have bound: "\<exists>ns'. load ns = Inr ns' \<and>
      ns' ''output_path'' = Some (VStr ''output'') \<and>
      filter (\<lambda>x. abs_path_field (ns' x)) (targets sram_config) = []"
    by (simp add: load_result targets_sram_config abs_path_field_def isabs_def)
  have stmt: "filter (\<lambda>s. target s = ''output_path'') sram_config =
      [Assign ''output_path'' (Lit (VStr ''output''))]"
    by (simp add: sram_config_def sram_config_with_def)
  from bound stmt show ?thesis
    by auto
qed

section \<open>Loading as a whole\<close>

text \<open>
  C5. Loading the file never fails, in whatever namespace: the body and each of its
  prefixes run to the end without an exception, and each prefix has bound the targets
  of its statements. After the load every field has the value of its assignment,
  \<open>output_name\<close> the interpolated one, and every other name keeps its binding. The only
  statement that reads other names is the one for \<open>output_name\<close>, which reads
  \<open>word_size\<close>, \<open>num_words\<close> and \<open>num_banks\<close>; with other integers configured, each
  within the limit of the interpreter on the digits of a text, the load succeeds just
  the same and \<open>output_name\<close> is made of the decimal texts of the three values the fields
  then hold.
\<close>

theorem load_never_fails:
  "(\<exists>ns'. load ns = Inr ns' \<and>
      ns' |` (- set (targets sram_config)) = ns |` (- set (targets sram_config)) \<and>
      snapshot ns' =
        [(''word_size'', Some (VInt 32)), (''words_per_row'', Some (VInt 4)),
         (''num_words'', Some (VInt 1024)), (''num_banks'', Some (VInt 1)),
         (''num_rw_ports'', Some (VInt 1)), (''num_r_ports'', Some (VInt 0)),
         (''num_w_ports'', Some (VInt 0)), (''tech_name'', Some (VStr ''freepdk45'')),
         (''process_corners'', Some (VList [VStr ''TT''])),
         (''supply_voltages'', Some (VList [VFloat 18 (- 1)])),
         (''temperatures'', Some (VList [VInt 25])), (''output_path'', Some (VStr ''output'')),
         (''output_name'', Some (VStr ''sram_32x1024_1bank'')),
         (''analytical_delay'', Some (VBool True)),
         (''nominal_corner_only'', Some (VBool True))]) \<and>
   (\<exists>nsk. exec_module (take k sram_config) ns = Inr nsk \<and>
      dom nsk = dom ns \<union> set (targets (take k sram_config))) \<and>
   derived_fields sram_config = [(''output_name'', [''word_size'', ''num_words'', ''num_banks''])] \<and>
   (fits_max_str_digits ws \<and> fits_max_str_digits nw \<and> fits_max_str_digits nb \<longrightarrow>
      (\<exists>ns'. exec_module (sram_config_with ws wpr nw nb) ns = Inr ns' \<and>
         ns' ''word_size'' = Some (VInt ws) \<and>
         ns' ''num_words'' = Some (VInt nw) \<and>
         ns' ''num_banks'' = Some (VInt nb) \<and>
         ns' ''output_name'' =
           Some (VStr (''sram_'' @ str_int ws @ ''x'' @ str_int nw @ ''_'' @ str_int nb @ ''bank'')) \<and>
         is_decimal_text_of (str_int ws) ws \<and>
         is_decimal_text_of (str_int nw) nw \<and>
         is_decimal_text_of (str_int nb) nb))"
proof (intro conjI)
  obtain ns' where l: "load ns = Inr ns'"
    using load_result by blast
  have "ns' x = ns x" if "x \<notin> set (targets sram_config)" for x
    using l that unfolding load_def by (rule exec_module_frame)
  then have frame: "ns' |` (- set (targets sram_config)) = ns |` (- set (targets sram_config))"
    by (auto simp: restrict_map_def)
  from l have "snapshot ns' =
      [(''word_size'', Some (VInt 32)), (''words_per_row'', Some (VInt 4)),
       (''num_words'', Some (VInt 1024)), (''num_banks'', Some (VInt 1)),
       (''num_rw_ports'', Some (VInt 1)), (''num_r_ports'', Some (VInt 0)),
       (''num_w_ports'', Some (VInt 0)), (''tech_name'', Some (VStr ''freepdk45'')),
       (''process_corners'', Some (VList [VStr ''TT''])),
       (''supply_voltages'', Some (VList [VFloat 18 (- 1)])),
       (''temperatures'', Some (VList [VInt 25])), (''output_path'', Some (VStr ''output'')),
       (''output_name'', Some (VStr ''sram_32x1024_1bank'')),
       (''analytical_delay'', Some (VBool True)),
       (''nominal_corner_only'', Some (VBool True))]"
    by (auto simp: load_result snapshot_def targets_sram_config)
  with l frame show "\<exists>ns'. load ns = Inr ns' \<and>
      ns' |` (- set (targets sram_config)) = ns |` (- set (targets sram_config)) \<and>
      snapshot ns' =
        [(''word_size'', Some (VInt 32)), (''words_per_row'', Some (VInt 4)),
         (''num_words'', Some (VInt 1024)), (''num_banks'', Some (VInt 1)),
         (''num_rw_ports'', Some (VInt 1)), (''num_r_ports'', Some (VInt 0)),
         (''num_w_ports'', Some (VInt 0)), (''tech_name'', Some (VStr ''freepdk45'')),
         (''process_corners'', Some (VList [VStr ''TT''])),
         (''supply_voltages'', Some (VList [VFloat 18 (- 1)])),
         (''temperatures'', Some (VList [VInt 25])), (''output_path'', Some (VStr ''output'')),
         (''output_name'', Some (VStr ''sram_32x1024_1bank'')),
         (''analytical_delay'', Some (VBool True)),
         (''nominal_corner_only'', Some (VBool True))]"
    by blast
  from l obtain nsk where k: "exec_module (take k sram_config) ns = Inr nsk"
    unfolding load_def using exec_module_prefix by blast
  then have "dom nsk = dom ns \<union> set (targets (take k sram_config))"
    by (rule exec_module_dom)
  with k show "\<exists>nsk. exec_module (take k sram_config) ns = Inr nsk \<and>
      dom nsk = dom ns \<union> set (targets (take k sram_config))"
    by blast
  show "derived_fields sram_config =
      [(''output_name'', [''word_size'', ''num_words'', ''num_banks''])]"
    by (simp add: derived_fields_def sram_config_def sram_config_with_def output_name_expr_def)
  show "fits_max_str_digits ws \<and> fits_max_str_digits nw \<and> fits_max_str_digits nb \<longrightarrow>
      (\<exists>ns'. exec_module (sram_config_with ws wpr nw nb) ns = Inr ns' \<and>
         ns' ''word_size'' = Some (VInt ws) \<and>
         ns' ''num_words'' = Some (VInt nw) \<and>
         ns' ''num_banks'' = Some (VInt nb) \<and>
         ns' ''output_name'' =
           Some (VStr (''sram_'' @ str_int ws @ ''x'' @ str_int nw @ ''_'' @ str_int nb @ ''bank'')) \<and>
         is_decimal_text_of (str_int ws) ws \<and>
         is_decimal_text_of (str_int nw) nw \<and>
         is_decimal_text_of (str_int nb) nb)"
    by (simp add: exec_sram_config_with str_int_is_decimal_text)
qed

theorem load_never_fails_witness:
  "fits_max_str_digits 64 \<and> fits_max_str_digits 2048 \<and> fits_max_str_digits 2 \<and>
   (\<exists>ns'. exec_module (sram_config_with 64 8 2048 2) Map.empty = Inr ns' \<and>
      ns' ''word_size'' = Some (VInt 64) \<and>
      ns' ''num_words'' = Some (VInt 2048) \<and>
      ns' ''num_banks'' = Some (VInt 2) \<and>
      ns' ''output_name'' = Some (VStr ''sram_64x2048_2bank''))"
proof -
  have ws: "fits_max_str_digits 64"
    by (rule fits_below [of _ 2]) (simp_all add: max_str_digits_def)
  have nw: "fits_max_str_digits 2048"
    by (rule fits_below [of _ 4]) (simp_all add: max_str_digits_def)
  have nb: "fits_max_str_digits 2"
    by (rule fits_below [of _ 1]) (simp_all add: max_str_digits_def)
  have t: "str_int 64 = ''64''" "str_int 2048 = ''2048''" "str_int 2 = ''2''"
    by (simp_all add: str_int_def digits.simps digit_char_def)
  from load_never_fails [where ns = Map.empty and k = 0 and ws = 64 and nw = 2048
      and nb = 2 and wpr = 8] ws nw nb
  obtain ns' where "exec_module (sram_config_with 64 8 2048 2) Map.empty = Inr ns'"
    and "ns' ''word_size'' = Some (VInt 64)"
    and "ns' ''num_words'' = Some (VInt 2048)"
    and "ns' ''num_banks'' = Some (VInt 2)"
    and "ns' ''output_name'' =
      Some (VStr (''sram_'' @ str_int 64 @ ''x'' @ str_int 2048 @ ''_'' @ str_int 2 @ ''bank''))"
    by blast
  then have "\<exists>ns'. exec_module (sram_config_with 64 8 2048 2) Map.empty = Inr ns' \<and>
      ns' ''word_size'' = Some (VInt 64) \<and>
      ns' ''num_words'' = Some (VInt 2048) \<and>
      ns' ''num_banks'' = Some (VInt 2) \<and>
      ns' ''output_name'' = Some (VStr ''sram_64x2048_2bank'')"
    by (simp add: t)
  with ws nw nb show ?thesis
    by blast
qed

text \<open>
  C6. Loading twice gives the same values as loading once: a second load in the
  namespace of the first returns that namespace unchanged, and two loads in any two
  namespaces bind every field to the same value, so nothing of the namespace the load
  starts from reaches a field.
\<close>

theorem load_twice_same_values:
  "(\<exists>ns1. load ns = Inr ns1 \<and> load_twice ns = Inr ns1) \<and>
   (\<exists>a b. load ns = Inr a \<and> load ns' = Inr b \<and> snapshot a = snapshot b)"
  by (simp add: load_twice_def load_result snapshot_def targets_sram_config)

text \<open>
  C7. The body assigns each field once and nothing reassigns it: once the first \<open>i\<close>
  statements have run, a field they assigned has the same value after any longer prefix
  \<open>j\<close> of the body, the whole body included.
\<close>

theorem assigned_field_keeps_value:
  assumes "i \<le> j" and "x \<in> set (targets (take i sram_config))"
  shows "field_after (take j sram_config) ns x = field_after (take i sram_config) ns x"
proof -
  obtain nsf where f: "exec_module sram_config ns = Inr nsf"
    using load_result [of ns] unfolding load_def by blast
  obtain nsi where i: "exec_module (take i sram_config) ns = Inr nsi"
    using exec_module_prefix [OF f] by blast
  obtain nsj where j: "exec_module (take j sram_config) ns = Inr nsj"
    using exec_module_prefix [OF f] by blast
  have "nsj x = nsi x"
    using distinct_targets_sram_config assms i j by (rule exec_module_keeps_assigned)
  with i j show ?thesis
    by (simp add: field_after_def)
qed

theorem assigned_field_keeps_value_witness:
  "(13::nat) \<le> 15 \<and> ''output_name'' \<in> set (targets (take 13 sram_config)) \<and>
   field_after (take 15 sram_config) Map.empty ''output_name'' =
     field_after (take 13 sram_config) Map.empty ''output_name'' \<and>
   field_after (take 13 sram_config) Map.empty ''output_name'' =
     Inr (Some (VStr ''sram_32x1024_1bank''))"
proof -
  have le: "(13::nat) \<le> 15" by simp
  have mem: "''output_name'' \<in> set (targets (take 13 sram_config))"
    by (simp add: targets_def sram_config_def sram_config_with_def)
  have val: "field_after (take 13 sram_config) Map.empty ''output_name'' =
      Inr (Some (VStr ''sram_32x1024_1bank''))"
    by (simp add: field_after_def sram_config_def sram_config_with_def output_name_expr_def
        max_str_digits_def str_int_def digits.simps digit_char_def)
  from assigned_field_keeps_value [OF le mem, of Map.empty] le mem val show ?thesis
    by blast
qed

end
